theory Spec2Isabelle
  imports Complex_Main "HOL-Library.Log_Nat"
begin

section \<open>The banking demo of 01pacotes/desafio.py\<close>

text \<open>
  A shallow embedding of the classes \<^verbatim>\<open>Historico\<close>, \<^verbatim>\<open>Conta\<close>, \<^verbatim>\<open>ContaCorrente\<close>,
  \<^verbatim>\<open>Saque\<close>, \<^verbatim>\<open>Deposito\<close> and of \<^verbatim>\<open>Cliente.realizar_transacao\<close>.

  Modelling decisions:
  \<^item> The methods of the source work on any Python number, and the definitions are written
    for any type of numbers \<open>'a\<close>. Two types are used: Python floats (\<open>pyfloat\<close>), which is
    what the program passes to the methods, and exact numbers (\<open>real\<close>), where no operation
    rounds.
  \<^item> Every method of the source mutates its receiver in place; here it takes the object and
    returns the updated one.
  \<^item> Every \<^verbatim>\<open>print\<close> of a method is returned as a value of type \<open>mensagem\<close>.
  \<^item> \<^verbatim>\<open>datetime.now()\<close> is an input of the operation that reads the clock.
  \<^item> The two account classes are one record with the class as a field; a call of
    \<^verbatim>\<open>conta.sacar\<close> is dispatched on it.
\<close>

subsection \<open>Timestamps\<close>

text \<open>
  A ledger entry stores \<^verbatim>\<open>datetime.now().strftime("%d-%m-%Y %H:%M:%S")\<close> and
  \<^verbatim>\<open>transacoes_do_dia\<close> reads it back with \<^verbatim>\<open>strptime\<close> and the same format. The text is
  modelled by the six numbers it spells, in the order of the format: what \<^verbatim>\<open>strptime\<close>
  returns for a text that \<^verbatim>\<open>strftime\<close> wrote is the clock reading without its microseconds.
  \<open>date\<close> is \<^verbatim>\<open>datetime.date()\<close>.
\<close>

record datahora =
  dia :: nat
  mes :: nat
  ano :: nat
  hora :: nat
  minuto :: nat
  segundo :: nat

definition date :: "datahora \<Rightarrow> nat \<times> nat \<times> nat" where
  "date d = (ano d, mes d, dia d)"

subsection \<open>Transactions and ledger entries\<close>

datatype 'a transacao = Saque 'a | Deposito 'a

text \<open>The property \<^verbatim>\<open>valor\<close> of both transaction classes.\<close>

fun transacao_valor :: "'a transacao \<Rightarrow> 'a" where
  "transacao_valor (Saque v) = v"
| "transacao_valor (Deposito v) = v"

text \<open>\<^verbatim>\<open>transacao.__class__.__name__\<close>.\<close>

fun class_name :: "'a transacao \<Rightarrow> string" where
  "class_name (Saque v) = ''Saque''"
| "class_name (Deposito v) = ''Deposito''"

text \<open>The dictionary with the keys \<^verbatim>\<open>"tipo"\<close>, \<^verbatim>\<open>"valor"\<close> and \<^verbatim>\<open>"data"\<close>.\<close>

record 'a registro =
  tipo :: string
  valor :: 'a
  data :: datahora

text \<open>The list \<^verbatim>\<open>Historico._transacoes\<close>.\<close>

type_synonym 'a historico_t = "'a registro list"

definition adicionar_transacao ::
  "'a historico_t \<Rightarrow> 'a transacao \<Rightarrow> datahora \<Rightarrow> 'a historico_t" where
  "adicionar_transacao h t agora =
     h @ [\<lparr>tipo = class_name t, valor = transacao_valor t, data = agora\<rparr>]"

text \<open>
  \<^verbatim>\<open>str.lower()\<close> on the ASCII letters; a byte outside \<open>A..Z\<close> is left as it is (the two
  kinds an entry can have, \<open>Saque\<close> and \<open>Deposito\<close>, are ASCII).
\<close>

definition lower_char :: "char \<Rightarrow> char" where
  "lower_char ch =
     (if 65 \<le> (of_char ch :: nat) \<and> (of_char ch :: nat) \<le> 90
      then char_of ((of_char ch :: nat) + 32) else ch)"

definition lower :: "string \<Rightarrow> string" where
  "lower s = map lower_char s"

text \<open>
  Equality of two strings case-insensitively, in the words of the specification rather
  than by the method of the source: the strings have the same length and, position by
  position, the same character or the upper-case and lower-case form of one letter.
\<close>

definition maiuscula :: "char \<Rightarrow> bool" where
  "maiuscula ch = (65 \<le> (of_char ch :: nat) \<and> (of_char ch :: nat) \<le> 90)"

definition mesma_letra :: "char \<Rightarrow> char \<Rightarrow> bool" where
  "mesma_letra a b =
     (a = b
      \<or> (maiuscula a \<and> (of_char b :: nat) = of_char a + 32)
      \<or> (maiuscula b \<and> (of_char a :: nat) = of_char b + 32))"

definition igual_sem_caixa :: "string \<Rightarrow> string \<Rightarrow> bool" where
  "igual_sem_caixa s r = list_all2 mesma_letra s r"

text \<open>
  The generator \<^verbatim>\<open>gerar_relatorio\<close>: the \<^verbatim>\<open>for\<close> loop over the entries, as a recursion that
  returns the list of the values it yields, in the order it yields them.
\<close>

fun gerar_relatorio :: "'a historico_t \<Rightarrow> string option \<Rightarrow> 'a registro list" where
  "gerar_relatorio [] filtro = []"
| "gerar_relatorio (t # ts) filtro =
     (if (case filtro of None \<Rightarrow> True | Some s \<Rightarrow> lower (tipo t) = lower s)
      then t # gerar_relatorio ts filtro
      else gerar_relatorio ts filtro)"

text \<open>\<^verbatim>\<open>transacoes_do_dia\<close>; \<open>agora\<close> is what \<^verbatim>\<open>datetime.now()\<close> returns inside the method.\<close>

definition transacoes_do_dia :: "'a historico_t \<Rightarrow> datahora \<Rightarrow> 'a registro list" where
  "transacoes_do_dia h agora = filter (\<lambda>t. date (data t) = date agora) h"

subsection \<open>Accounts\<close>

text \<open>
  The class of an account object: the base class \<^verbatim>\<open>Conta\<close>, or \<^verbatim>\<open>ContaCorrente\<close> with its
  fields \<^verbatim>\<open>_limite\<close> and \<^verbatim>\<open>_limite_saques\<close>.
\<close>

datatype 'a classe = Base | Corrente 'a int

text \<open>
  The fields of \<^verbatim>\<open>Conta\<close>. The reference to the owning customer is left out: no method
  modelled here reads it.
\<close>

record 'a conta =
  classe :: "'a classe"
  saldo :: 'a
  numero :: int
  agencia :: string
  historico :: "'a historico_t"

definition Conta_init :: "int \<Rightarrow> ('a::zero) conta" where
  "Conta_init n =
     \<lparr>classe = Base, saldo = 0, numero = n, agencia = ''0001'', historico = []\<rparr>"

definition ContaCorrente_init :: "int \<Rightarrow> 'a \<Rightarrow> int \<Rightarrow> ('a::zero) conta" where
  "ContaCorrente_init n limite limite_saques =
     (Conta_init n)\<lparr>classe := Corrente limite limite_saques\<rparr>"

text \<open>\<^verbatim>\<open>ContaCorrente(numero, cliente)\<close> with the default arguments.\<close>

definition ContaCorrente_padrao :: "int \<Rightarrow> ('a::{zero,numeral}) conta" where
  "ContaCorrente_padrao n = ContaCorrente_init n 500 3"

text \<open>
  What a method prints:
  \<^item> \<open>ValorInvalido\<close>: "Valor invalido!"
  \<^item> \<open>SaldoInsuficiente\<close>: "Saldo insuficiente!"
  \<^item> \<open>SaqueRealizado\<close>: "Saque realizado com sucesso!"
  \<^item> \<open>DepositoRealizado\<close>: "Deposito realizado com sucesso!"
  \<^item> \<open>LimiteSaqueExcedido\<close>: "Limite de saque excedido!" (the amount is over \<^verbatim>\<open>_limite\<close>)
  \<^item> \<open>LimiteSaquesExcedido\<close>: "Limite de saques excedido!" (the count reached \<^verbatim>\<open>_limite_saques\<close>)
  \<^item> \<open>LimiteDiarioExcedido\<close>: "Limite diario de transacoes excedido!"
\<close>

datatype mensagem =
    ValorInvalido
  | SaldoInsuficiente
  | SaqueRealizado
  | DepositoRealizado
  | LimiteSaqueExcedido
  | LimiteSaquesExcedido
  | LimiteDiarioExcedido

text \<open>\<^verbatim>\<open>Conta.sacar\<close>: the returned flag, the message printed, the account afterwards.\<close>

definition Conta_sacar ::
  "('a::{zero,ord,minus}) conta \<Rightarrow> 'a \<Rightarrow> bool \<times> mensagem \<times> 'a conta" where
  "Conta_sacar c v =
     (if v \<le> 0 then (False, ValorInvalido, c)
      else if v > saldo c then (False, SaldoInsuficiente, c)
      else (True, SaqueRealizado, c\<lparr>saldo := saldo c - v\<rparr>))"

text \<open>\<^verbatim>\<open>Conta.depositar\<close>, which \<^verbatim>\<open>ContaCorrente\<close> inherits unchanged.\<close>

definition depositar ::
  "('a::{zero,ord,plus}) conta \<Rightarrow> 'a \<Rightarrow> bool \<times> mensagem \<times> 'a conta" where
  "depositar c v =
     (if v \<le> 0 then (False, ValorInvalido, c)
      else (True, DepositoRealizado, c\<lparr>saldo := saldo c + v\<rparr>))"

text \<open>The count \<^verbatim>\<open>len([t for t in self.historico.transacoes if t["tipo"] == "Saque"])\<close>.\<close>

definition numero_saques :: "'a historico_t \<Rightarrow> nat" where
  "numero_saques h = length (filter (\<lambda>t. tipo t = ''Saque'') h)"

text \<open>\<^verbatim>\<open>ContaCorrente.sacar\<close>, with the two fields of the subclass as arguments.\<close>

definition ContaCorrente_sacar ::
  "'a \<Rightarrow> int \<Rightarrow> ('a::{zero,ord,minus}) conta \<Rightarrow> 'a \<Rightarrow> bool \<times> mensagem \<times> 'a conta" where
  "ContaCorrente_sacar limite limite_saques c v =
     (if v > limite then (False, LimiteSaqueExcedido, c)
      else if int (numero_saques (historico c)) \<ge> limite_saques
        then (False, LimiteSaquesExcedido, c)
      else Conta_sacar c v)"

text \<open>The call \<^verbatim>\<open>conta.sacar(valor)\<close>, dispatched on the class of the object.\<close>

definition sacar ::
  "('a::{zero,ord,minus}) conta \<Rightarrow> 'a \<Rightarrow> bool \<times> mensagem \<times> 'a conta" where
  "sacar c v =
     (case classe c of
        Base \<Rightarrow> Conta_sacar c v
      | Corrente limite limite_saques \<Rightarrow> ContaCorrente_sacar limite limite_saques c v)"

subsection \<open>Applying a transaction\<close>

text \<open>
  \<^verbatim>\<open>Saque.registrar\<close> and \<^verbatim>\<open>Deposito.registrar\<close>. Both return \<^verbatim>\<open>None\<close>; the model returns the
  message printed by the account and the account afterwards. \<open>agora\<close> is the clock read by
  \<^verbatim>\<open>adicionar_transacao\<close>.
\<close>

fun registrar ::
  "('a::{zero,ord,plus,minus}) transacao \<Rightarrow> 'a conta \<Rightarrow> datahora \<Rightarrow> mensagem \<times> 'a conta"
  where
  "registrar (Saque v) c agora =
     (case sacar c v of
        (ok, m, c') \<Rightarrow>
          if ok
          then (m, c'\<lparr>historico := adicionar_transacao (historico c') (Saque v) agora\<rparr>)
          else (m, c'))"
| "registrar (Deposito v) c agora =
     (case depositar c v of
        (ok, m, c') \<Rightarrow>
          if ok
          then (m, c'\<lparr>historico := adicionar_transacao (historico c') (Deposito v) agora\<rparr>)
          else (m, c'))"

text \<open>
  \<^verbatim>\<open>Cliente.realizar_transacao\<close>. The customer object is not read by the method. The clock is
  read twice: \<open>agora1\<close> by \<^verbatim>\<open>transacoes_do_dia\<close>, \<open>agora2\<close> by \<^verbatim>\<open>adicionar_transacao\<close>.
\<close>

definition realizar_transacao ::
  "('a::{zero,ord,plus,minus}) conta \<Rightarrow> 'a transacao \<Rightarrow> datahora \<Rightarrow> datahora
     \<Rightarrow> mensagem \<times> 'a conta" where
  "realizar_transacao c t agora1 agora2 =
     (if length (transacoes_do_dia (historico c) agora1) \<ge> 2
      then (LimiteDiarioExcedido, c)
      else registrar t c agora2)"

subsection \<open>Sequences of requests\<close>

text \<open>
  The balance mutation under a transaction: \<^verbatim>\<open>conta.sacar(valor)\<close> for a withdrawal,
  \<^verbatim>\<open>conta.depositar(valor)\<close> for a deposit.
\<close>

fun mutacao ::
  "('a::{zero,ord,plus,minus}) conta \<Rightarrow> 'a transacao \<Rightarrow> bool \<times> mensagem \<times> 'a conta" where
  "mutacao c (Saque v) = sacar c v"
| "mutacao c (Deposito v) = depositar c v"

text \<open>
  A request reaches an account in one of three ways: the method of the account is called
  directly, the transaction's \<^verbatim>\<open>registrar\<close> is called, or the customer's
  \<^verbatim>\<open>realizar_transacao\<close> is called. The last two carry the clock readings.
\<close>

datatype via = Direto | PorRegistrar datahora | PorCliente datahora datahora

type_synonym 'a pedido = "via \<times> 'a transacao"

fun passo :: "('a::{zero,ord,plus,minus}) conta \<Rightarrow> 'a pedido \<Rightarrow> mensagem \<times> 'a conta" where
  "passo c (Direto, t) = (case mutacao c t of (ok, m, c') \<Rightarrow> (m, c'))"
| "passo c (PorRegistrar agora, t) = registrar t c agora"
| "passo c (PorCliente agora1 agora2, t) = realizar_transacao c t agora1 agora2"

text \<open>
  Running a list of requests in order. The result is the account at the end and the record
  of the run: every request with the message it printed.
\<close>

type_synonym 'a evento = "'a pedido \<times> mensagem"

fun executar ::
  "('a::{zero,ord,plus,minus}) conta \<Rightarrow> 'a pedido list \<Rightarrow> 'a evento list \<times> 'a conta" where
  "executar c [] = ([], c)"
| "executar c (p # ps) =
     (case passo c p of
        (m, c') \<Rightarrow> (case executar c' ps of (evs, c'') \<Rightarrow> ((p, m) # evs, c'')))"

text \<open>
  A request succeeded when the account printed a success message, which \<^verbatim>\<open>Conta.sacar\<close> and
  \<^verbatim>\<open>Conta.depositar\<close> do exactly when they return \<^verbatim>\<open>True\<close>.
\<close>

fun sucesso :: "mensagem \<Rightarrow> bool" where
  "sucesso SaqueRealizado = True"
| "sucesso DepositoRealizado = True"
| "sucesso m = False"

text \<open>
  The balance that the successful requests of a run add up to, from the balance \<open>b\<close> at
  its start: in the order of the run, the amount of a successful deposit is added and the
  amount of a successful withdrawal is subtracted, by the operations of the number type.
\<close>

fun efeito :: "('a::{plus,minus}) evento \<Rightarrow> 'a \<Rightarrow> 'a" where
  "efeito ((w, Deposito v), m) b = (if sucesso m then b + v else b)"
| "efeito ((w, Saque v), m) b = (if sucesso m then b - v else b)"

fun saldo_acumulado :: "('a::{plus,minus}) \<Rightarrow> 'a evento list \<Rightarrow> 'a" where
  "saldo_acumulado b [] = b"
| "saldo_acumulado b (e # evs) = saldo_acumulado (efeito e b) evs"

text \<open>
  The sum of the amounts of the successful deposits and of the successful withdrawals of a
  run, added up from 0 in the order of the run as Python's \<^verbatim>\<open>sum\<close> does.
\<close>

fun credito :: "('a::zero) evento \<Rightarrow> 'a" where
  "credito ((w, Deposito v), m) = (if sucesso m then v else 0)"
| "credito ((w, Saque v), m) = 0"

fun debito :: "('a::zero) evento \<Rightarrow> 'a" where
  "debito ((w, Saque v), m) = (if sucesso m then v else 0)"
| "debito ((w, Deposito v), m) = 0"

definition total_depositos :: "('a::{zero,plus}) evento list \<Rightarrow> 'a" where
  "total_depositos evs = foldl (+) 0 (map credito evs)"

definition total_saques :: "('a::{zero,plus}) evento list \<Rightarrow> 'a" where
  "total_saques evs = foldl (+) 0 (map debito evs)"

text \<open>
  A withdrawal that was recorded in the ledger: it went through \<^verbatim>\<open>registrar\<close> (called
  directly or by the customer) and the account reported success. A withdrawal made by
  calling \<^verbatim>\<open>sacar\<close> directly is never recorded, whatever it returns.
\<close>

fun saque_registrado :: "'a evento \<Rightarrow> bool" where
  "saque_registrado ((Direto, t), m) = False"
| "saque_registrado ((w, Saque v), m) = sucesso m"
| "saque_registrado ((w, Deposito v), m) = False"

definition saques_registrados :: "'a evento list \<Rightarrow> nat" where
  "saques_registrados evs = length (filter saque_registrado evs)"

text \<open>A clock reading for the examples: hour \<open>h\<close> of day \<open>d\<close> of November 2026.\<close>

definition em :: "nat \<Rightarrow> nat \<Rightarrow> datahora" where
  "em d h = \<lparr>dia = d, mes = 11, ano = 2026, hora = h, minuto = 0, segundo = 0\<rparr>"

text \<open>
  The account for the examples: account number 1, created as \<^verbatim>\<open>criar_conta\<close> does (a
  \<^verbatim>\<open>ContaCorrente\<close> with the default limit 500 and cap 3), after the requests \<open>ps\<close>, with
  exact numbers.
\<close>

definition conta_apos :: "real pedido list \<Rightarrow> real conta" where
  "conta_apos ps = snd (executar (ContaCorrente_padrao 1) ps)"

subsection \<open>The numbers of the program: Python floats\<close>

text \<open>
  The definitions above are written for any type of numbers with \<open>0\<close>, \<open>+\<close>, \<open>-\<close>, \<open>\<le>\<close> and
  \<open><\<close>, as the methods of the source are. The program itself calls them with the result of
  \<^verbatim>\<open>float(input(...))\<close> (functions \<^verbatim>\<open>depositar\<close> and \<^verbatim>\<open>sacar\<close> of the menu), so its amounts
  and balances are Python floats: IEEE 754 binary64 values with the operations rounded to
  nearest, ties to even.

  A float is a finite value, an infinity or NaN. A finite value is held as the real number
  it denotes; the two zeros are one value (they compare equal and no operation used here
  tells them apart).
\<close>

datatype pyfloat = Finito real | MaisInf | MenosInf | NaN

text \<open>The nearest integer, the even one of the two when \<open>y\<close> is half way between them.\<close>

definition arredondar_par :: "real \<Rightarrow> int" where
  "arredondar_par y =
     (if y - of_int \<lfloor>y\<rfloor> < 1 / 2 then \<lfloor>y\<rfloor>
      else if 1 / 2 < y - of_int \<lfloor>y\<rfloor> then \<lfloor>y\<rfloor> + 1
      else if even \<lfloor>y\<rfloor> then \<lfloor>y\<rfloor> else \<lfloor>y\<rfloor> + 1)"

text \<open>
  The binary exponent of \<open>x \<noteq> 0\<close>: the \<open>e\<close> with \<open>2 ^ e \<le> \<bar>x\<bar> < 2 ^ (e + 1)\<close>
  (lemma \<open>expoente_binario_bounds\<close>), computed from the number of bits of an integer.
\<close>

definition expoente_binario :: "real \<Rightarrow> int" where
  "expoente_binario x =
     (if 1 \<le> \<bar>x\<bar> then bitlen \<lfloor>\<bar>x\<bar>\<rfloor> - 1 else - bitlen (\<lceil>1 / \<bar>x\<bar>\<rceil> - 1))"

text \<open>
  Rounding a real number to binary64. The significand has 53 bits, so the last bit of a
  number with exponent \<open>e\<close> is worth \<open>2 ^ (e - 52)\<close>, and never less than \<open>2 ^ (- 1074)\<close>
  (the subnormal numbers). The number is rounded to a multiple of that unit; a result that
  reaches \<open>2 ^ 1024\<close> is an infinity.
\<close>

definition arredondar :: "real \<Rightarrow> pyfloat" where
  "arredondar x =
     (if x = 0 then Finito 0
      else
        let q = max (expoente_binario x - 52) (- 1074);
            r = of_int (arredondar_par (x / 2 powi q)) * 2 powi q
        in if 2 ^ 1024 \<le> r then MaisInf
           else if r \<le> - (2 ^ 1024) then MenosInf
           else Finito r)"

text \<open>
  The operations of the source on floats. The integer \<^verbatim>\<open>0\<close> of \<^verbatim>\<open>self._saldo = 0\<close> and of
  \<^verbatim>\<open>valor <= 0\<close> is the float zero: Python converts it exactly. A comparison with NaN is
  false.
\<close>

instantiation pyfloat :: "{zero, plus, minus, ord}"
begin

definition zero_pyfloat :: pyfloat where
  "zero_pyfloat = Finito 0"

fun plus_pyfloat :: "pyfloat \<Rightarrow> pyfloat \<Rightarrow> pyfloat" where
  "plus_pyfloat NaN y = NaN"
| "plus_pyfloat x NaN = NaN"
| "plus_pyfloat MaisInf MenosInf = NaN"
| "plus_pyfloat MenosInf MaisInf = NaN"
| "plus_pyfloat MaisInf y = MaisInf"
| "plus_pyfloat x MaisInf = MaisInf"
| "plus_pyfloat MenosInf y = MenosInf"
| "plus_pyfloat x MenosInf = MenosInf"
| "plus_pyfloat (Finito a) (Finito b) = arredondar (a + b)"

fun minus_pyfloat :: "pyfloat \<Rightarrow> pyfloat \<Rightarrow> pyfloat" where
  "minus_pyfloat NaN y = NaN"
| "minus_pyfloat x NaN = NaN"
| "minus_pyfloat MaisInf MaisInf = NaN"
| "minus_pyfloat MenosInf MenosInf = NaN"
| "minus_pyfloat MaisInf y = MaisInf"
| "minus_pyfloat x MaisInf = MenosInf"
| "minus_pyfloat MenosInf y = MenosInf"
| "minus_pyfloat x MenosInf = MaisInf"
| "minus_pyfloat (Finito a) (Finito b) = arredondar (a - b)"

fun less_eq_pyfloat :: "pyfloat \<Rightarrow> pyfloat \<Rightarrow> bool" where
  "less_eq_pyfloat NaN y = False"
| "less_eq_pyfloat x NaN = False"
| "less_eq_pyfloat MenosInf y = True"
| "less_eq_pyfloat x MaisInf = True"
| "less_eq_pyfloat x MenosInf = False"
| "less_eq_pyfloat MaisInf y = False"
| "less_eq_pyfloat (Finito a) (Finito b) = (a \<le> b)"

fun less_pyfloat :: "pyfloat \<Rightarrow> pyfloat \<Rightarrow> bool" where
  "less_pyfloat NaN y = False"
| "less_pyfloat x NaN = False"
| "less_pyfloat x MenosInf = False"
| "less_pyfloat MaisInf y = False"
| "less_pyfloat MenosInf y = True"
| "less_pyfloat x MaisInf = True"
| "less_pyfloat (Finito a) (Finito b) = (a < b)"

instance ..

end

text \<open>An amount that is neither an infinity nor NaN.\<close>

fun finito :: "pyfloat \<Rightarrow> bool" where
  "finito (Finito x) = True"
| "finito x = False"

definition pedidos_finitos :: "pyfloat pedido list \<Rightarrow> bool" where
  "pedidos_finitos ps = list_all (\<lambda>p. finito (transacao_valor (snd p))) ps"

text \<open>
  The account for the examples on floats: the account \<^verbatim>\<open>criar_conta\<close> creates, number 1,
  after the requests \<open>ps\<close>.
\<close>

definition conta_float_apos :: "pyfloat pedido list \<Rightarrow> pyfloat conta" where
  "conta_float_apos ps = snd (executar (ContaCorrente_init 1 (Finito 500) 3) ps)"

text \<open>The record of that run: every request with the message it printed.\<close>

definition eventos_float_apos :: "pyfloat pedido list \<Rightarrow> pyfloat evento list" where
  "eventos_float_apos ps = fst (executar (ContaCorrente_init 1 (Finito 500) 3) ps)"

section \<open>Basic facts\<close>

text \<open>
  Every outcome of a withdrawal and of a deposit, for both classes of account and every type
  of numbers.
\<close>

lemma sacar_cases:
  "sacar c v = (False, ValorInvalido, c) \<or> sacar c v = (False, SaldoInsuficiente, c)
   \<or> sacar c v = (False, LimiteSaqueExcedido, c)
   \<or> sacar c v = (False, LimiteSaquesExcedido, c)
   \<or> (sacar c v = (True, SaqueRealizado, c\<lparr>saldo := saldo c - v\<rparr>)
        \<and> \<not> v \<le> 0 \<and> \<not> saldo c < v)"
  by (auto simp: sacar_def ContaCorrente_sacar_def Conta_sacar_def split: classe.splits)

lemma depositar_cases:
  "depositar c v = (False, ValorInvalido, c)
   \<or> (depositar c v = (True, DepositoRealizado, c\<lparr>saldo := saldo c + v\<rparr>) \<and> \<not> v \<le> 0)"
  by (auto simp: depositar_def)

lemma sacar_flag_sucesso: "sacar c v = (ok, m, c') \<Longrightarrow> ok = sucesso m"
  using sacar_cases [of c v] by auto

lemma depositar_flag_sucesso: "depositar c v = (ok, m, c') \<Longrightarrow> ok = sucesso m"
  using depositar_cases [of c v] by auto

lemma numero_saques_append:
  "numero_saques (h @ [e]) = numero_saques h + (if tipo e = ''Saque'' then 1 else 0)"
  by (simp add: numero_saques_def)

text \<open>The effect of one request on the balance, the class and the withdrawal count.\<close>

lemma passo_efeito:
  assumes "passo c p = (m, c')"
  shows "saldo c' = efeito (p, m) (saldo c)"
    and "classe c' = classe c"
    and "numero_saques (historico c') =
           numero_saques (historico c) + (if saque_registrado (p, m) then 1 else 0)"
proof -
  obtain w t where p: "p = (w, t)" by (cases p)
  note outcomes = sacar_cases [of c "transacao_valor t"] depositar_cases [of c "transacao_valor t"]
  show "saldo c' = efeito (p, m) (saldo c)"
    using assms outcomes unfolding p
    by (cases w; cases t) (auto simp: realizar_transacao_def split: if_splits)
  show "classe c' = classe c"
    using assms outcomes unfolding p
    by (cases w; cases t) (auto simp: realizar_transacao_def split: if_splits)
  show "numero_saques (historico c') =
           numero_saques (historico c) + (if saque_registrado (p, m) then 1 else 0)"
    using assms outcomes unfolding p
    by (cases w; cases t)
      (auto simp: realizar_transacao_def adicionar_transacao_def numero_saques_append
        split: if_splits)
qed

text \<open>The same for a run, by induction on the list of requests.\<close>

lemma executar_Cons:
  assumes "executar c (p # ps) = (evs, c')"
  obtains m c1 evs1 where "passo c p = (m, c1)" and "executar c1 ps = (evs1, c')"
    and "evs = (p, m) # evs1"
  using assms by (auto split: prod.splits)

lemma executar_saldo_acumulado:
  "executar c ps = (evs, c') \<Longrightarrow> saldo c' = saldo_acumulado (saldo c) evs"
proof (induction ps arbitrary: c evs)
  case Nil
  then show ?case by simp
next
  case (Cons p ps)
  from Cons.prems obtain m c1 evs1 where st: "passo c p = (m, c1)"
    and ex: "executar c1 ps = (evs1, c')" and evs: "evs = (p, m) # evs1"
    by (rule executar_Cons)
  show ?case
    unfolding evs using Cons.IH [OF ex] passo_efeito(1) [OF st] by simp
qed

lemma executar_classe:
  "executar c ps = (evs, c') \<Longrightarrow> classe c' = classe c"
proof (induction ps arbitrary: c evs)
  case Nil
  then show ?case by simp
next
  case (Cons p ps)
  from Cons.prems(1) obtain m c1 evs1 where st: "passo c p = (m, c1)"
    and ex: "executar c1 ps = (evs1, c')"
    by (rule executar_Cons)
  show ?case using Cons.IH [OF ex] passo_efeito(2) [OF st] by simp
qed

lemma executar_numero_saques:
  "executar c ps = (evs, c') \<Longrightarrow>
     numero_saques (historico c') = numero_saques (historico c) + saques_registrados evs"
proof (induction ps arbitrary: c evs)
  case Nil
  then show ?case by (simp add: saques_registrados_def)
next
  case (Cons p ps)
  from Cons.prems(1) obtain m c1 evs1 where st: "passo c p = (m, c1)"
    and ex: "executar c1 ps = (evs1, c')" and evs: "evs = (p, m) # evs1"
    by (rule executar_Cons)
  show ?case using Cons.IH [OF ex] passo_efeito(3) [OF st]
    unfolding evs by (simp add: saques_registrados_def)
qed

text \<open>Neither method touches the ledger, and a refused request changes nothing.\<close>

lemma mutacao_historico: "mutacao c t = (ok, m, c') \<Longrightarrow> historico c' = historico c"
  using sacar_cases [of c "transacao_valor t"] depositar_cases [of c "transacao_valor t"]
  by (cases t) auto

lemma mutacao_falha: "mutacao c t = (False, m, c') \<Longrightarrow> c' = c"
  using sacar_cases [of c "transacao_valor t"] depositar_cases [of c "transacao_valor t"]
  by (cases t) auto

text \<open>A run on a new checking account: the class stays, the count starts at 0.\<close>

lemma executar_ContaCorrente:
  assumes "executar (ContaCorrente_init n lmt ls) ps = (evs, c)"
  shows "classe c = Corrente lmt ls"
    and "numero_saques (historico c) = saques_registrados evs"
proof -
  show "classe c = Corrente lmt ls"
    using executar_classe [OF assms] by (simp add: ContaCorrente_init_def)
  show "numero_saques (historico c) = saques_registrados evs"
    using executar_numero_saques [OF assms]
    by (simp add: ContaCorrente_init_def Conta_init_def numero_saques_def)
qed

text \<open>
  Comparing the lower-case forms, as the source does, decides equality up to the case of
  the letters.
\<close>

lemma of_char_lower_char:
  "(of_char (lower_char ch) :: nat) = (if maiuscula ch then of_char ch + 32 else of_char ch)"
  by (simp add: lower_char_def maiuscula_def)

lemma char_eq_iff_of_char: "a = b \<longleftrightarrow> (of_char a :: nat) = of_char b"
  by (metis char_of_char)

lemma lower_char_eq_iff: "lower_char a = lower_char b \<longleftrightarrow> mesma_letra a b"
  unfolding char_eq_iff_of_char [of "lower_char a"] of_char_lower_char mesma_letra_def
  unfolding char_eq_iff_of_char [of a b] maiuscula_def
  by auto

lemma lower_eq_iff: "lower s = lower r \<longleftrightarrow> igual_sem_caixa s r"
  unfolding lower_def igual_sem_caixa_def
proof (induction s arbitrary: r)
  case Nil
  show ?case by simp
next
  case (Cons a s)
  show ?case
  proof (cases r)
    case Nil
    then show ?thesis by simp
  next
    case (Cons b r')
    show ?thesis unfolding Cons using Cons.IH [of r'] by (simp add: lower_char_eq_iff)
  qed
qed

text \<open>The definitions a concrete run unfolds to.\<close>

lemmas avaliar =
  ContaCorrente_padrao_def ContaCorrente_init_def Conta_init_def realizar_transacao_def
  transacoes_do_dia_def depositar_def sacar_def ContaCorrente_sacar_def Conta_sacar_def
  adicionar_transacao_def numero_saques_def em_def date_def total_depositos_def
  total_saques_def saques_registrados_def conta_apos_def

section \<open>Facts about floats\<close>

text \<open>The exponent computed by \<open>expoente_binario\<close> is the binary exponent.\<close>

lemma expoente_binario_bounds:
  assumes "x \<noteq> 0"
  shows "2 powi (expoente_binario x) \<le> \<bar>x\<bar> \<and> \<bar>x\<bar> < 2 powi (expoente_binario x + 1)"
proof (cases "1 \<le> \<bar>x\<bar>")
  case True
  define n where "n = \<lfloor>\<bar>x\<bar>\<rfloor>"
  have n1: "1 \<le> n" using True unfolding n_def by simp
  then have n0: "0 < n" by simp
  have e: "expoente_binario x = bitlen n - 1"
    using True by (simp add: expoente_binario_def n_def)
  have bl: "1 \<le> bitlen n" using n0 by (simp add: bitlen_def floorlog_def)
  from bitlen_bounds [OF n0]
  have lo: "2 ^ nat (bitlen n - 1) \<le> n" and hi: "n < 2 ^ nat (bitlen n)" by auto
  have "(2::real) powi (bitlen n - 1) = 2 ^ nat (bitlen n - 1)"
    using bl by (simp add: power_int_def)
  also have "\<dots> \<le> real_of_int n" using lo by (metis of_int_le_iff of_int_numeral of_int_power)
  also have "\<dots> \<le> \<bar>x\<bar>" unfolding n_def by simp
  finally have 1: "2 powi (expoente_binario x) \<le> \<bar>x\<bar>" unfolding e .
  have "n + 1 \<le> 2 ^ nat (bitlen n)" using hi by simp
  then have "real_of_int (n + 1) \<le> 2 ^ nat (bitlen n)"
    by (metis of_int_le_iff of_int_numeral of_int_power)
  moreover have "\<bar>x\<bar> < real_of_int (n + 1)" unfolding n_def by linarith
  moreover have "(2::real) powi (bitlen n - 1 + 1) = 2 ^ nat (bitlen n)"
    using bl by (simp add: power_int_def)
  ultimately have 2: "\<bar>x\<bar> < 2 powi (expoente_binario x + 1)" unfolding e by simp
  from 1 2 show ?thesis by simp
next
  case False
  then have lt1: "\<bar>x\<bar> < 1" by simp
  have pos: "0 < \<bar>x\<bar>" using assms by simp
  define y where "y = 1 / \<bar>x\<bar>"
  have y1: "1 < y" using lt1 pos unfolding y_def by simp
  define n where "n = \<lceil>y\<rceil> - 1"
  have n0: "0 < n" using y1 unfolding n_def by linarith
  define k where "k = bitlen n"
  have k1: "1 \<le> k" using n0 unfolding k_def by (simp add: bitlen_def floorlog_def)
  have e: "expoente_binario x = - k"
    using False by (simp add: expoente_binario_def n_def y_def k_def)
  from bitlen_bounds [OF n0]
  have lo: "2 ^ nat (k - 1) \<le> n" and hi: "n < 2 ^ nat k" unfolding k_def by auto
  have "y \<le> real_of_int (n + 1)" unfolding n_def by simp
  also have "\<dots> \<le> 2 ^ nat k"
  proof -
    have "n + 1 \<le> 2 ^ nat k" using hi by simp
    then show ?thesis by (metis of_int_le_iff of_int_numeral of_int_power)
  qed
  finally have yk: "y \<le> 2 ^ nat k" .
  have "real_of_int n < y" unfolding n_def by linarith
  moreover have "(2::real) ^ nat (k - 1) \<le> real_of_int n"
    using lo by (metis of_int_le_iff of_int_numeral of_int_power)
  ultimately have yk': "2 ^ nat (k - 1) < y" by linarith
  have x_eq: "\<bar>x\<bar> = 1 / y" unfolding y_def by simp
  have y0: "0 < y" using y1 by simp
  have p1: "(2::real) powi (- k) = 1 / 2 ^ nat k"
    using k1 by (simp add: power_int_def field_simps)
  have p2: "(2::real) powi (- k + 1) = 1 / 2 ^ nat (k - 1)"
    using k1 by (simp add: power_int_def field_simps nat_diff_distrib)
  have 1: "2 powi (expoente_binario x) \<le> \<bar>x\<bar>"
    unfolding e p1 x_eq using yk y0 by (simp add: frac_le)
  have 2: "\<bar>x\<bar> < 2 powi (expoente_binario x + 1)"
    unfolding e p2 x_eq using yk' y0 by (simp add: frac_less2)
  from 1 2 show ?thesis by simp
qed

text \<open>The definitions a float computation unfolds to.\<close>

lemmas avaliar_float =
  arredondar_def expoente_binario_def arredondar_par_def compute_bitlen Let_def
  zero_pyfloat_def conta_float_apos_def eventos_float_apos_def pedidos_finitos_def

text \<open>
  The rounding on known values: the float nearest to one tenth; \<^verbatim>\<open>0.1 + 0.2\<close>, which
  Python prints as \<^verbatim>\<open>0.30000000000000004\<close>; \<^verbatim>\<open>1e16 + 1.0\<close> and \<^verbatim>\<open>1e16 - 1.0\<close>, which are
  \<^verbatim>\<open>1e16\<close>; a sum beyond the largest float; half of the smallest subnormal number.
\<close>

lemma arredondar_exemplos:
  "arredondar (1 / 10) = Finito (3602879701896397 / 2 ^ 55)"
  "Finito (3602879701896397 / 2 ^ 55) + Finito (3602879701896397 / 2 ^ 54)
     = Finito (5404319552844596 / 2 ^ 54)"
  "Finito 10000000000000000 + Finito 1 = Finito 10000000000000000"
  "Finito 10000000000000000 - Finito 1 = Finito 10000000000000000"
  "Finito (2 ^ 1023) + Finito (2 ^ 1023) = MaisInf"
  "arredondar (2 powi (- 1075)) = Finito 0"
  by (simp_all add: avaliar_float)

text \<open>Rounding keeps the sign, so the two updates of the balance keep it from below 0.\<close>

lemma arredondar_par_nonneg: "0 \<le> y \<Longrightarrow> 0 \<le> arredondar_par y"
  by (simp add: arredondar_par_def)

lemma arredondar_nonneg: "0 \<le> x \<Longrightarrow> 0 \<le> arredondar x"
proof -
  assume x: "0 \<le> x"
  define q where "q = max (expoente_binario x - 52) (- 1074)"
  define r where "r = real_of_int (arredondar_par (x / 2 powi q)) * 2 powi q"
  have "0 \<le> x / 2 powi q" using x by simp
  then have r0: "0 \<le> r"
    unfolding r_def using arredondar_par_nonneg [of "x / 2 powi q"] by simp
  have pw: "(0::real) < 2 ^ 1024" by (rule zero_less_power) simp
  have neg: "\<not> r \<le> - (2 ^ 1024)" using r0 pw by linarith
  have "arredondar x =
          (if x = 0 then Finito 0 else if 2 ^ 1024 \<le> r then MaisInf else Finito r)"
    unfolding arredondar_def Let_def q_def [symmetric] r_def [symmetric]
    using neg by (simp only: if_False)
  then show ?thesis
    using r0 by (simp only: zero_pyfloat_def less_eq_pyfloat.simps split: if_splits) auto
qed

lemma positivo_nao_le_zero: "(0::pyfloat) < v \<Longrightarrow> \<not> v \<le> 0"
  by (cases v) (simp_all add: zero_pyfloat_def)

lemma soma_nao_negativa:
  assumes "(0::pyfloat) \<le> b" and "finito v" and "\<not> v \<le> 0"
  shows "0 \<le> b + v"
proof -
  from assms(2) obtain x where v: "v = Finito x" by (cases v) simp_all
  from assms(3) have x: "0 < x" unfolding v by (simp add: zero_pyfloat_def)
  show ?thesis
  proof (cases b)
    case (Finito s)
    with assms(1) have "0 \<le> s" by (simp add: zero_pyfloat_def)
    with x have "0 \<le> s + x" by simp
    then show ?thesis unfolding Finito v using arredondar_nonneg [of "s + x"] by simp
  qed (use assms(1) in \<open>simp_all add: v zero_pyfloat_def\<close>)
qed

lemma diferenca_nao_negativa:
  assumes "(0::pyfloat) \<le> b" and "finito v" and "\<not> b < v"
  shows "0 \<le> b - v"
proof -
  from assms(2) obtain x where v: "v = Finito x" by (cases v) simp_all
  show ?thesis
  proof (cases b)
    case (Finito s)
    with assms(3) have "0 \<le> s - x" unfolding v by simp
    then show ?thesis unfolding Finito v using arredondar_nonneg [of "s - x"] by simp
  qed (use assms(1) in \<open>simp_all add: v zero_pyfloat_def\<close>)
qed

lemma passo_nao_negativo:
  assumes "passo c p = (m, c')" and "(0::pyfloat) \<le> saldo c"
    and "finito (transacao_valor (snd p))"
  shows "0 \<le> saldo c'"
proof -
  obtain w t where p: "p = (w, t)" by (cases p)
  have fin: "finito (transacao_valor t)" using assms(3) unfolding p by simp
  have s: "sacar c (transacao_valor t) = (ok, m', d) \<Longrightarrow> 0 \<le> saldo d" for ok m' d
    using sacar_cases [of c "transacao_valor t"] assms(2)
      diferenca_nao_negativa [OF assms(2) fin]
    by auto
  have d: "depositar c (transacao_valor t) = (ok, m', d) \<Longrightarrow> 0 \<le> saldo d" for ok m' d
    using depositar_cases [of c "transacao_valor t"] assms(2)
      soma_nao_negativa [OF assms(2) fin]
    by auto
  have r: "registrar t c agora = (m', d) \<Longrightarrow> 0 \<le> saldo d" for agora m' d
    using s d by (cases t) (auto split: prod.splits if_splits)
  show ?thesis
    using assms(1) assms(2) s d r unfolding p
    by (cases w; cases t) (auto simp: realizar_transacao_def split: prod.splits if_splits)
qed

lemma executar_nao_negativo:
  "executar c ps = (evs, c') \<Longrightarrow> pedidos_finitos ps \<Longrightarrow> (0::pyfloat) \<le> saldo c
     \<Longrightarrow> 0 \<le> saldo c'"
proof (induction ps arbitrary: c evs)
  case Nil
  then show ?case by simp
next
  case (Cons p ps)
  from Cons.prems(1) obtain m c1 evs1 where st: "passo c p = (m, c1)"
    and ex: "executar c1 ps = (evs1, c')"
    by (rule executar_Cons)
  from Cons.prems(2) have fp: "finito (transacao_valor (snd p))" and fps: "pedidos_finitos ps"
    by (simp_all add: pedidos_finitos_def)
  have "0 \<le> saldo c1" by (rule passo_nao_negativo [OF st Cons.prems(3) fp])
  then show ?case by (rule Cons.IH [OF ex fps])
qed

text \<open>
  \<^verbatim>\<open>float("nan")\<close> is an amount the menu accepts. Every comparison with NaN is false, so no
  guard of \<^verbatim>\<open>depositar\<close> or of \<^verbatim>\<open>Conta.sacar\<close> stops it, and the balance becomes NaN.
\<close>

lemma NaN_absorve: "x + NaN = NaN" "x - NaN = NaN" "\<not> NaN \<le> x" "\<not> x < NaN"
  by (cases x; simp)+

lemma depositar_NaN: "depositar c NaN = (True, DepositoRealizado, c\<lparr>saldo := NaN\<rparr>)"
  by (simp add: depositar_def NaN_absorve)

lemma Conta_sacar_NaN: "Conta_sacar c NaN = (True, SaqueRealizado, c\<lparr>saldo := NaN\<rparr>)"
  by (simp add: Conta_sacar_def NaN_absorve)

section \<open>Facts about exact numbers\<close>

text \<open>
  Where no operation rounds, the balance that the successful requests add up to is the sum
  of the successful deposits minus the sum of the successful withdrawals.
\<close>

lemma foldl_soma_real: "foldl (+) (a::real) xs = a + foldl (+) 0 xs"
proof (induction xs arbitrary: a)
  case Nil
  show ?case by simp
next
  case (Cons x xs)
  show ?case using Cons.IH [of "a + x"] Cons.IH [of "x"] by simp
qed

lemma saldo_acumulado_exato:
  "saldo_acumulado (b::real) evs = b + total_depositos evs - total_saques evs"
proof (induction evs arbitrary: b)
  case Nil
  show ?case by (simp add: total_depositos_def total_saques_def)
next
  case (Cons e evs)
  obtain w t m where e: "e = ((w, t), m)" by (cases e) auto
  show ?case
    unfolding e using Cons.IH [of "efeito ((w, t), m) b"]
      foldl_soma_real [of "credito ((w, t), m)" "map credito evs"]
      foldl_soma_real [of "debito ((w, t), m)" "map debito evs"]
    by (cases t) (simp_all add: total_depositos_def total_saques_def)
qed

lemma executar_saldo_exato:
  assumes "executar c ps = (evs, c')"
  shows "saldo c' = saldo c + total_depositos evs - (total_saques evs :: real)"
  using executar_saldo_acumulado [OF assms] by (simp add: saldo_acumulado_exato)

section \<open>The claims\<close>

text \<open>
  C1. For every account, after any sequence of deposit and withdrawal requests, successful
  or not, the balance equals the sum of the amounts of the successful deposits minus the
  sum of the amounts of the successful withdrawals, and the balance is never negative.

  As stated the claim fails on the numbers of the program. On the account of the examples
  a deposit of \<^verbatim>\<open>1e16\<close> and three withdrawals of \<^verbatim>\<open>1.0\<close> all succeed, and every subtraction
  rounds back to \<^verbatim>\<open>1e16\<close>: the balance at the end is \<^verbatim>\<open>1e16\<close>, the sum of the successful
  deposits is \<^verbatim>\<open>1e16\<close> and the sum of the successful withdrawals is \<^verbatim>\<open>3.0\<close>. The difference of
  the two sums is \<open>10000000000000000 - 3\<close>, and \<^verbatim>\<open>9999999999999996.0\<close> when Python subtracts
  them; the balance is neither.
\<close>

theorem float_balance_is_not_net_of_successes:
  "map snd (eventos_float_apos
      [(PorCliente (em 3 9) (em 3 9), Deposito (Finito 10000000000000000)),
       (PorCliente (em 3 10) (em 3 10), Saque (Finito 1)),
       (PorCliente (em 4 9) (em 4 9), Saque (Finito 1)),
       (PorCliente (em 4 10) (em 4 10), Saque (Finito 1))])
     = [DepositoRealizado, SaqueRealizado, SaqueRealizado, SaqueRealizado]
   \<and> saldo (conta_float_apos
      [(PorCliente (em 3 9) (em 3 9), Deposito (Finito 10000000000000000)),
       (PorCliente (em 3 10) (em 3 10), Saque (Finito 1)),
       (PorCliente (em 4 9) (em 4 9), Saque (Finito 1)),
       (PorCliente (em 4 10) (em 4 10), Saque (Finito 1))])
     = Finito 10000000000000000
   \<and> total_depositos (eventos_float_apos
      [(PorCliente (em 3 9) (em 3 9), Deposito (Finito 10000000000000000)),
       (PorCliente (em 3 10) (em 3 10), Saque (Finito 1)),
       (PorCliente (em 4 9) (em 4 9), Saque (Finito 1)),
       (PorCliente (em 4 10) (em 4 10), Saque (Finito 1))])
     = Finito 10000000000000000
   \<and> total_saques (eventos_float_apos
      [(PorCliente (em 3 9) (em 3 9), Deposito (Finito 10000000000000000)),
       (PorCliente (em 3 10) (em 3 10), Saque (Finito 1)),
       (PorCliente (em 4 9) (em 4 9), Saque (Finito 1)),
       (PorCliente (em 4 10) (em 4 10), Saque (Finito 1))])
     = Finito 3
   \<and> Finito 10000000000000000 - Finito 3 = Finito 9999999999999996
   \<and> (10000000000000000 :: real) \<noteq> 10000000000000000 - 3"
  by (simp add: avaliar avaliar_float)

text \<open>
  C1, amended. For every account, after any sequence of deposit and withdrawal requests,
  successful or not, whose amounts are finite floats, the balance is what the successful
  requests add up to from 0 in the order they were made, the amount of each successful
  deposit added and the amount of each successful withdrawal subtracted in float
  arithmetic (every operation rounded to the nearest float), and the balance is never
  negative.

  The account is a new one of either class and the requests reach it by any of the three
  ways. \<open>0 \<le> saldo c\<close> is the comparison of floats: the balance is a finite number that is
  not negative, or the positive infinity that a sum beyond the largest float gives. Since
  the statement holds for every list of requests, it holds after every prefix of a run.
  In exact arithmetic the amended balance is the difference of the two sums of the claim
  (lemmas \<open>saldo_acumulado_exato\<close> and \<open>executar_saldo_exato\<close>). An amount that is NaN or
  infinite is outside the statement.
\<close>

theorem balance_is_rounded_accumulation:
  assumes "c0 = Conta_init n \<or> c0 = ContaCorrente_init n lmt ls"
    and "pedidos_finitos ps"
    and "executar c0 ps = (evs, c)"
  shows "saldo c = saldo_acumulado 0 evs \<and> 0 \<le> saldo c"
proof -
  from assms(1) have z: "saldo c0 = 0"
    by (auto simp: Conta_init_def ContaCorrente_init_def)
  then have z': "0 \<le> saldo c0" by (simp add: zero_pyfloat_def)
  show ?thesis
    using executar_saldo_acumulado [OF assms(3)]
      executar_nao_negativo [OF assms(3) assms(2) z'] z
    by simp
qed

text \<open>
  The scenario of the specification on a new checking account: deposit 1000, withdraw 1500
  (refused), withdraw 500. The balance is 500 and the ledger holds two entries.
\<close>

theorem balance_is_rounded_accumulation_witness:
  "pedidos_finitos
      [(PorCliente (em 3 10) (em 3 10), Deposito (Finito 1000)),
       (PorCliente (em 3 11) (em 3 11), Saque (Finito 1500)),
       (PorCliente (em 3 12) (em 3 12), Saque (Finito 500))]
   \<and> (\<exists>evs c. executar (ContaCorrente_init 1 (Finito 500) 3)
       [(PorCliente (em 3 10) (em 3 10), Deposito (Finito 1000)),
        (PorCliente (em 3 11) (em 3 11), Saque (Finito 1500)),
        (PorCliente (em 3 12) (em 3 12), Saque (Finito 500))] = (evs, c)
     \<and> map snd evs = [DepositoRealizado, LimiteSaqueExcedido, SaqueRealizado]
     \<and> saldo_acumulado 0 evs = Finito 500 \<and> saldo c = Finito 500
     \<and> map tipo (historico c) = [''Deposito'', ''Saque'']
     \<and> saldo c = saldo_acumulado 0 evs \<and> 0 \<le> saldo c)"
proof -
  have fin: "pedidos_finitos
      [(PorCliente (em 3 10) (em 3 10), Deposito (Finito 1000)),
       (PorCliente (em 3 11) (em 3 11), Saque (Finito 1500)),
       (PorCliente (em 3 12) (em 3 12), Saque (Finito 500))]"
    by (simp add: pedidos_finitos_def)
  obtain evs c where run: "executar (ContaCorrente_init 1 (Finito 500) 3)
       [(PorCliente (em 3 10) (em 3 10), Deposito (Finito 1000)),
        (PorCliente (em 3 11) (em 3 11), Saque (Finito 1500)),
        (PorCliente (em 3 12) (em 3 12), Saque (Finito 500))] = (evs, c)"
    by (cases "executar (ContaCorrente_init 1 (Finito 500) 3)
       [(PorCliente (em 3 10) (em 3 10), Deposito (Finito 1000)),
        (PorCliente (em 3 11) (em 3 11), Saque (Finito 1500)),
        (PorCliente (em 3 12) (em 3 12), Saque (Finito 500))]")
  have inv: "saldo c = saldo_acumulado 0 evs \<and> 0 \<le> saldo c"
    by (rule balance_is_rounded_accumulation [OF disjI2 [OF refl] fin run])
  from run have vals: "map snd evs = [DepositoRealizado, LimiteSaqueExcedido, SaqueRealizado]
     \<and> saldo c = Finito 500 \<and> map tipo (historico c) = [''Deposito'', ''Saque'']"
    by (auto simp: avaliar avaliar_float)
  from inv vals have acc: "saldo_acumulado 0 evs = Finito 500" by simp
  show ?thesis
  proof (intro conjI exI [of _ evs] exI [of _ c])
    show "saldo_acumulado 0 evs = Finito 500" by (rule acc)
    show "saldo c = saldo_acumulado 0 evs" using inv by (rule conjunct1)
    show "0 \<le> saldo c" using inv by (rule conjunct2)
  qed (use fin run vals in simp_all)
qed

text \<open>
  C2. For every account and every transaction (withdrawal or deposit), \<^verbatim>\<open>registrar\<close> appends
  an entry to the ledger of the account if and only if the balance mutation under it
  (\<^verbatim>\<open>sacar\<close> or \<^verbatim>\<open>depositar\<close>) returned success; on failure no entry is appended.

  \<open>ok\<close>, \<open>m\<close> and \<open>c'\<close> are what the mutation returns, prints and leaves. On success the
  ledger is the old one with one entry for the transaction at its end; on failure the
  account is the one before the call.
\<close>

theorem registrar_appends_iff_success:
  assumes "mutacao c t = (ok, m, c')"
  shows "registrar t c agora =
           (m, c'\<lparr>historico :=
                 if ok
                 then historico c @
                   [\<lparr>tipo = class_name t, valor = transacao_valor t, data = agora\<rparr>]
                 else historico c\<rparr>)
         \<and> (length (historico (snd (registrar t c agora))) = length (historico c) + 1
              \<longleftrightarrow> ok)
         \<and> (\<not> ok \<longrightarrow> registrar t c agora = (m, c))"
proof -
  have h: "historico c' = historico c" by (rule mutacao_historico [OF assms])
  have f: "\<not> ok \<Longrightarrow> c' = c" using mutacao_falha [of c t m c'] assms by simp
  have r: "registrar t c agora =
           (m, c'\<lparr>historico :=
                 if ok
                 then historico c @
                   [\<lparr>tipo = class_name t, valor = transacao_valor t, data = agora\<rparr>]
                 else historico c\<rparr>)"
    using assms h by (cases t) (auto simp: adicionar_transacao_def)
  show ?thesis using r f by auto
qed

text \<open>On the new account a deposit of 100 is recorded and a withdrawal of 100 is not.\<close>

theorem registrar_appends_iff_success_witness:
  "mutacao (conta_apos []) (Deposito 100) =
      (True, DepositoRealizado, (conta_apos [])\<lparr>saldo := 100\<rparr>)
   \<and> registrar (Deposito 100) (conta_apos []) (em 3 10) =
      (DepositoRealizado, (conta_apos [])
         \<lparr>saldo := 100, historico := [\<lparr>tipo = ''Deposito'', valor = 100, data = em 3 10\<rparr>]\<rparr>)
   \<and> mutacao (conta_apos []) (Saque 100) = (False, SaldoInsuficiente, conta_apos [])
   \<and> registrar (Saque 100) (conta_apos []) (em 3 10) = (SaldoInsuficiente, conta_apos [])
   \<and> historico (conta_apos []) = []"
proof -
  have d: "mutacao (conta_apos []) (Deposito 100) =
      (True, DepositoRealizado, (conta_apos [])\<lparr>saldo := 100\<rparr>)"
    by (simp add: avaliar)
  have s: "mutacao (conta_apos []) (Saque 100) = (False, SaldoInsuficiente, conta_apos [])"
    by (simp add: avaliar)
  have e: "historico (conta_apos []) = []" by (simp add: avaliar)
  show ?thesis
    using registrar_appends_iff_success [OF d, of "em 3 10"]
      registrar_appends_iff_success [OF s, of "em 3 10"] d s e
    by simp
qed

text \<open>
  C3. For every customer, account and transaction of either kind: if the ledger of the
  account already holds at least 2 entries whose date is the current date,
  \<^verbatim>\<open>realizar_transacao\<close> leaves the account as it is (balance and ledger unchanged);
  otherwise it does what the transaction's \<^verbatim>\<open>registrar\<close> does.

  The current date is the date of \<open>agora1\<close>, the clock read by the check.
\<close>

theorem realizar_transacao_daily_cap:
  "(2 \<le> length (filter (\<lambda>e. date (data e) = date agora1) (historico c))
      \<longrightarrow> realizar_transacao c t agora1 agora2 = (LimiteDiarioExcedido, c))
   \<and> (length (filter (\<lambda>e. date (data e) = date agora1) (historico c)) < 2
      \<longrightarrow> realizar_transacao c t agora1 agora2 = registrar t c agora2)"
  by (simp add: realizar_transacao_def transacoes_do_dia_def)

text \<open>
  After two deposits on day 3, a third request on day 3 is refused whatever its kind, and a
  request on day 4 is applied.
\<close>

theorem realizar_transacao_daily_cap_witness:
  "(let c = conta_apos [(PorCliente (em 3 9) (em 3 9), Deposito 100),
                        (PorCliente (em 3 10) (em 3 10), Deposito 50)]
    in length (filter (\<lambda>e. date (data e) = date (em 3 11)) (historico c)) = 2
     \<and> realizar_transacao c (Saque 10) (em 3 11) (em 3 11) = (LimiteDiarioExcedido, c)
     \<and> realizar_transacao c (Deposito 10) (em 3 11) (em 3 11) = (LimiteDiarioExcedido, c)
     \<and> length (filter (\<lambda>e. date (data e) = date (em 4 8)) (historico c)) = 0
     \<and> realizar_transacao c (Saque 10) (em 4 8) (em 4 8) = registrar (Saque 10) c (em 4 8)
     \<and> saldo (snd (realizar_transacao c (Saque 10) (em 4 8) (em 4 8))) = 140)"
proof -
  define c where "c = conta_apos [(PorCliente (em 3 9) (em 3 9), Deposito 100),
                        (PorCliente (em 3 10) (em 3 10), Deposito 50)]"
  have today: "length (filter (\<lambda>e. date (data e) = date (em 3 11)) (historico c)) = 2"
    unfolding c_def by (simp add: avaliar)
  have other: "length (filter (\<lambda>e. date (data e) = date (em 4 8)) (historico c)) = 0"
    unfolding c_def by (simp add: avaliar)
  have a: "realizar_transacao c (Saque 10) (em 3 11) (em 3 11) = (LimiteDiarioExcedido, c)"
    using realizar_transacao_daily_cap [of "em 3 11" c "Saque 10" "em 3 11"] today by simp
  have b: "realizar_transacao c (Deposito 10) (em 3 11) (em 3 11) = (LimiteDiarioExcedido, c)"
    using realizar_transacao_daily_cap [of "em 3 11" c "Deposito 10" "em 3 11"] today by simp
  have d: "realizar_transacao c (Saque 10) (em 4 8) (em 4 8) = registrar (Saque 10) c (em 4 8)"
    using realizar_transacao_daily_cap [of "em 4 8" c "Saque 10" "em 4 8"] other by simp
  have e: "saldo (snd (registrar (Saque 10) c (em 4 8))) = 140"
    unfolding c_def by (simp add: avaliar)
  show ?thesis
    unfolding Let_def c_def [symmetric] using today other a b d e by simp
qed

text \<open>
  C4. A checking account with withdrawal-count cap 3 rejects its 4th withdrawal request,
  regardless of the current balance; the rejected request changes neither balance nor
  ledger.

  As stated the claim fails: the cap counts the withdrawals recorded in the ledger, not the
  requests. On the new account, after a deposit of 100, three requests to withdraw 200 are
  refused for insufficient balance, and the 4th withdrawal request (of 50) is accepted: the
  balance goes to 50 and the ledger gets the entry.
\<close>

theorem fourth_request_after_three_refusals_accepted:
  "executar (ContaCorrente_init 1 (500::real) 3)
     [(PorCliente (em 3 9) (em 3 9), Deposito 100),
      (PorCliente (em 3 10) (em 3 10), Saque 200),
      (PorCliente (em 3 11) (em 3 11), Saque 200),
      (PorCliente (em 3 12) (em 3 12), Saque 200),
      (PorCliente (em 3 13) (em 3 13), Saque 50)]
   = ([((PorCliente (em 3 9) (em 3 9), Deposito 100), DepositoRealizado),
       ((PorCliente (em 3 10) (em 3 10), Saque 200), SaldoInsuficiente),
       ((PorCliente (em 3 11) (em 3 11), Saque 200), SaldoInsuficiente),
       ((PorCliente (em 3 12) (em 3 12), Saque 200), SaldoInsuficiente),
       ((PorCliente (em 3 13) (em 3 13), Saque 50), SaqueRealizado)],
      \<lparr>classe = Corrente 500 3, saldo = 50, numero = 1, agencia = ''0001'',
        historico = [\<lparr>tipo = ''Deposito'', valor = 100, data = em 3 9\<rparr>,
                     \<lparr>tipo = ''Saque'', valor = 50, data = em 3 13\<rparr>]\<rparr>)"
  by (simp add: avaliar)

text \<open>
  C4, amended. A checking account with withdrawal-count cap 3 rejects every withdrawal
  request made once three of its withdrawals have been recorded in the ledger (three
  withdrawals that succeeded through \<^verbatim>\<open>registrar\<close>), regardless of the current balance and
  of the amount; the rejected request changes neither balance nor ledger. Requests that
  were refused before do not count.
\<close>

theorem fourth_withdrawal_rejected_after_three_recorded:
  assumes "executar (ContaCorrente_init n lmt 3) ps = (evs, c)"
    and "3 \<le> saques_registrados evs"
  shows "\<exists>m. sacar c v = (False, m, c) \<and> registrar (Saque v) c agora = (m, c)
          \<and> m = (if lmt < v then LimiteSaqueExcedido else LimiteSaquesExcedido)"
proof -
  note cc = executar_ContaCorrente [OF assms(1)]
  show ?thesis using cc assms(2)
    by (auto simp: sacar_def ContaCorrente_sacar_def)
qed

text \<open>
  Deposit 1000, then three withdrawals of 100 on two days (the daily cap of the customer
  allows two entries a day): on day 5 the balance is 700 and a withdrawal of 100 is refused.
\<close>

theorem fourth_withdrawal_rejected_after_three_recorded_witness:
  "\<exists>evs c. executar (ContaCorrente_init 1 (500::real) 3)
       [(PorCliente (em 3 9) (em 3 9), Deposito 1000),
        (PorCliente (em 3 10) (em 3 10), Saque 100),
        (PorCliente (em 4 9) (em 4 9), Saque 100),
        (PorCliente (em 4 10) (em 4 10), Saque 100)] = (evs, c)
     \<and> saques_registrados evs = 3 \<and> saldo c = 700
     \<and> sacar c 100 = (False, LimiteSaquesExcedido, c)
     \<and> registrar (Saque 100) c (em 5 9) = (LimiteSaquesExcedido, c)"
proof -
  obtain evs c where run: "executar (ContaCorrente_init 1 (500::real) 3)
       [(PorCliente (em 3 9) (em 3 9), Deposito 1000),
        (PorCliente (em 3 10) (em 3 10), Saque 100),
        (PorCliente (em 4 9) (em 4 9), Saque 100),
        (PorCliente (em 4 10) (em 4 10), Saque 100)] = (evs, c)"
    by (cases "executar (ContaCorrente_init 1 (500::real) 3)
       [(PorCliente (em 3 9) (em 3 9), Deposito 1000),
        (PorCliente (em 3 10) (em 3 10), Saque 100),
        (PorCliente (em 4 9) (em 4 9), Saque 100),
        (PorCliente (em 4 10) (em 4 10), Saque 100)]")
  from run have vals: "saques_registrados evs = 3 \<and> saldo c = 700"
    by (auto simp: avaliar)
  then have three: "3 \<le> saques_registrados evs" by simp
  have rej: "sacar c 100 = (False, LimiteSaquesExcedido, c)
     \<and> registrar (Saque 100) c (em 5 9) = (LimiteSaquesExcedido, c)"
    using fourth_withdrawal_rejected_after_three_recorded [OF run three, of 100 "em 5 9"]
    by simp
  show ?thesis
    by (rule exI [of _ evs], rule exI [of _ c]) (use run vals rej in simp)
qed

text \<open>
  C5. For every account, a withdrawal request whose amount exceeds the current balance
  returns the failure flag, leaves the balance unchanged, and appends no ledger entry.

  The account after the call is the account before it, whether the request is made by
  \<^verbatim>\<open>sacar\<close>, by \<^verbatim>\<open>registrar\<close> or by \<^verbatim>\<open>realizar_transacao\<close>.
\<close>

theorem withdrawal_over_balance_rejected:
  assumes "saldo c < v"
  shows "\<exists>m. sacar c v = (False, m, c) \<and> registrar (Saque v) c agora = (m, c)
           \<and> snd (realizar_transacao c (Saque v) agora1 agora2) = c"
  using assms sacar_cases [of c v] by (auto simp: realizar_transacao_def)

text \<open>With a balance of 100 a withdrawal of 200 is refused for insufficient balance.\<close>

theorem withdrawal_over_balance_rejected_witness:
  "(let c = conta_apos [(PorRegistrar (em 3 9), Deposito 100)]
    in saldo c = 100
     \<and> sacar c 200 = (False, SaldoInsuficiente, c)
     \<and> registrar (Saque 200) c (em 3 10) = (SaldoInsuficiente, c)
     \<and> snd (realizar_transacao c (Saque 200) (em 3 10) (em 3 10)) = c)"
proof -
  define c where "c = conta_apos [(PorRegistrar (em 3 9), Deposito 100)]"
  have b: "saldo c = 100" unfolding c_def by (simp add: avaliar)
  then have lt: "saldo c < 200" by simp
  have s: "sacar c 200 = (False, SaldoInsuficiente, c)"
    unfolding c_def by (simp add: avaliar)
  from withdrawal_over_balance_rejected [OF lt, of "em 3 10" "em 3 10" "em 3 10"] s
  have "registrar (Saque 200) c (em 3 10) = (SaldoInsuficiente, c)
     \<and> snd (realizar_transacao c (Saque 200) (em 3 10) (em 3 10)) = c"
    by auto
  with b s show ?thesis unfolding Let_def c_def [symmetric] by simp
qed

text \<open>
  C6. A checking account with per-operation limit 500 rejects a withdrawal of 501 even
  when the balance is sufficient, and appends no ledger entry.

  Stated for every limit and every amount over it: the balance is not read, the refusal
  is the one for the limit and the account is unchanged.
\<close>

theorem withdrawal_over_limit_rejected:
  assumes "classe c = Corrente lmt ls" and "lmt < v"
  shows "sacar c v = (False, LimiteSaqueExcedido, c)
         \<and> registrar (Saque v) c agora = (LimiteSaqueExcedido, c)"
  using assms by (simp add: sacar_def ContaCorrente_sacar_def)

text \<open>Limit 500, balance 1000, withdrawal of 501.\<close>

theorem withdrawal_over_limit_rejected_witness:
  "(let c = conta_apos [(PorRegistrar (em 3 9), Deposito 1000)]
    in classe c = Corrente 500 3 \<and> saldo c = 1000
     \<and> sacar c 501 = (False, LimiteSaqueExcedido, c)
     \<and> registrar (Saque 501) c (em 3 10) = (LimiteSaqueExcedido, c)
     \<and> length (historico (snd (registrar (Saque 501) c (em 3 10)))) = 1)"
proof -
  define c where "c = conta_apos [(PorRegistrar (em 3 9), Deposito 1000)]"
  have cl: "classe c = Corrente 500 3" unfolding c_def by (simp add: avaliar)
  have b: "saldo c = 1000" unfolding c_def by (simp add: avaliar)
  have h: "length (historico c) = 1" unfolding c_def by (simp add: avaliar)
  have over: "(500::real) < 501" by simp
  note r = withdrawal_over_limit_rejected [OF cl over, of "em 3 10"]
  show ?thesis
    unfolding Let_def c_def [symmetric] using cl b h r by simp
qed

text \<open>
  C7. In \<^verbatim>\<open>ContaCorrente.sacar\<close> the per-operation limit check and the withdrawal-count
  cap check are evaluated before the positivity and balance checks of the base account:
  for any request failing both a specific check and a base check (for example an amount
  exceeding both the limit and the balance), the reported error is the specific one
  (limit exceeded or cap exceeded), and the base checks are not reached.

  The first two conjuncts give the message of a request that fails a specific check,
  whatever the amount's sign and whatever the balance. The third says that the base method
  runs only when both specific checks pass, and the last that a message of the base
  checks is printed only then.
\<close>

theorem specific_checks_before_base_checks:
  assumes "classe (c :: real conta) = Corrente lmt ls"
  shows "(lmt < v \<longrightarrow> sacar c v = (False, LimiteSaqueExcedido, c))
       \<and> (v \<le> lmt \<and> ls \<le> int (numero_saques (historico c))
            \<longrightarrow> sacar c v = (False, LimiteSaquesExcedido, c))
       \<and> (v \<le> lmt \<and> int (numero_saques (historico c)) < ls
            \<longrightarrow> sacar c v = Conta_sacar c v)
       \<and> (fst (snd (sacar c v)) \<in> {ValorInvalido, SaldoInsuficiente}
            \<longrightarrow> v \<le> lmt \<and> int (numero_saques (historico c)) < ls)"
  using assms by (auto simp: sacar_def ContaCorrente_sacar_def Conta_sacar_def)

text \<open>
  With limit 500 and a balance of 100, a withdrawal of 600 is over the limit and over the
  balance: the message is the one for the limit, where the base method alone would report
  the balance. With three withdrawals recorded and a balance of 70, a withdrawal of 80 and
  a withdrawal of -5 are refused for the cap, where the base method alone would report the
  balance and the invalid amount.
\<close>

theorem specific_checks_before_base_checks_witness:
  "(let c = conta_apos [(PorRegistrar (em 3 9), Deposito 100)];
        d = conta_apos [(PorRegistrar (em 3 9), Deposito 100),
                        (PorRegistrar (em 3 10), Saque 10),
                        (PorRegistrar (em 3 11), Saque 10),
                        (PorRegistrar (em 3 12), Saque 10)]
    in sacar c 600 = (False, LimiteSaqueExcedido, c)
     \<and> Conta_sacar c 600 = (False, SaldoInsuficiente, c)
     \<and> sacar c 200 = (False, SaldoInsuficiente, c)
     \<and> saldo d = 70 \<and> numero_saques (historico d) = 3
     \<and> sacar d 80 = (False, LimiteSaquesExcedido, d)
     \<and> Conta_sacar d 80 = (False, SaldoInsuficiente, d)
     \<and> sacar d (- 5) = (False, LimiteSaquesExcedido, d)
     \<and> Conta_sacar d (- 5) = (False, ValorInvalido, d))"
proof -
  define c where "c = conta_apos [(PorRegistrar (em 3 9), Deposito 100)]"
  define d where "d = conta_apos [(PorRegistrar (em 3 9), Deposito 100),
                        (PorRegistrar (em 3 10), Saque 10),
                        (PorRegistrar (em 3 11), Saque 10),
                        (PorRegistrar (em 3 12), Saque 10)]"
  have clc: "classe c = Corrente 500 3" unfolding c_def by (simp add: avaliar)
  have cld: "classe d = Corrente 500 3" unfolding d_def by (simp add: avaliar)
  have bc: "saldo c = 100" unfolding c_def by (simp add: avaliar)
  have bd: "saldo d = 70" unfolding d_def by (simp add: avaliar)
  have nc: "numero_saques (historico c) = 0" unfolding c_def by (simp add: avaliar)
  have nd: "numero_saques (historico d) = 3" unfolding d_def by (simp add: avaliar)
  have 1: "sacar c 600 = (False, LimiteSaqueExcedido, c)"
    using specific_checks_before_base_checks [OF clc, of 600] by simp
  have 2: "sacar c 200 = (False, SaldoInsuficiente, c)"
    using specific_checks_before_base_checks [OF clc, of 200] nc bc
    by (simp add: Conta_sacar_def)
  have 3: "sacar d 80 = (False, LimiteSaquesExcedido, d)"
    using specific_checks_before_base_checks [OF cld, of 80] nd by simp
  have 4: "sacar d (- 5) = (False, LimiteSaquesExcedido, d)"
    using specific_checks_before_base_checks [OF cld, of "- 5"] nd by simp
  have 5: "Conta_sacar c 600 = (False, SaldoInsuficiente, c)"
    using bc by (simp add: Conta_sacar_def)
  have 6: "Conta_sacar d 80 = (False, SaldoInsuficiente, d)"
    using bd by (simp add: Conta_sacar_def)
  have 7: "Conta_sacar d (- 5) = (False, ValorInvalido, d)"
    by (simp add: Conta_sacar_def)
  show ?thesis
    unfolding Let_def c_def [symmetric] d_def [symmetric]
    using 1 2 3 4 5 6 7 bd nd by simp
qed

text \<open>
  C8. For every ledger, \<^verbatim>\<open>gerar_relatorio\<close> with a filter yields exactly the entries of the
  ledger whose kind equals the filter string case-insensitively, in append order, and with
  no filter it yields every entry in append order; neither it nor \<^verbatim>\<open>transacoes_do_dia\<close>
  mutates the ledger.

  The values yielded by the loop are the entries of the ledger that pass the test, in
  the order of the ledger. Both read operations are functions of the ledger that return a
  selection of its entries: the methods of the source assign to no field and call no
  mutating method, so the model gives them no ledger to return.
\<close>

theorem gerar_relatorio_filters_in_order:
  "gerar_relatorio h None = h
   \<and> gerar_relatorio h (Some s) = filter (\<lambda>t. igual_sem_caixa (tipo t) s) h
   \<and> transacoes_do_dia h agora = filter (\<lambda>t. date (data t) = date agora) h"
proof -
  have "gerar_relatorio h None = h"
    by (induction h) simp_all
  moreover have "gerar_relatorio h (Some s) = filter (\<lambda>t. igual_sem_caixa (tipo t) s) h"
    by (induction h) (simp_all add: lower_eq_iff)
  ultimately show ?thesis
    by (simp add: transacoes_do_dia_def)
qed

text \<open>
  A ledger with a deposit, two withdrawals and a deposit: the filter \<open>SAQUE\<close> yields the two
  withdrawals in order, the filter \<open>deposito\<close> the two deposits, the empty filter string
  nothing, and no filter every entry.
\<close>

theorem gerar_relatorio_filters_in_order_witness:
  "(let h = historico (conta_apos [(PorRegistrar (em 3 9), Deposito 100),
                                   (PorRegistrar (em 3 10), Saque 10),
                                   (PorRegistrar (em 4 11), Saque 20),
                                   (PorRegistrar (em 4 12), Deposito 5)])
    in map valor (gerar_relatorio h None) = [100, 10, 20, 5]
     \<and> map valor (gerar_relatorio h (Some ''SAQUE'')) = [10, 20]
     \<and> map valor (gerar_relatorio h (Some ''deposito'')) = [100, 5]
     \<and> gerar_relatorio h (Some []) = []
     \<and> map valor (transacoes_do_dia h (em 4 18)) = [20, 5])"
proof -
  define h where "h = historico (conta_apos [(PorRegistrar (em 3 9), Deposito 100),
                                   (PorRegistrar (em 3 10), Saque 10),
                                   (PorRegistrar (em 4 11), Saque 20),
                                   (PorRegistrar (em 4 12), Deposito 5)])"
  have hv: "h = [\<lparr>tipo = ''Deposito'', valor = 100, data = em 3 9\<rparr>,
                 \<lparr>tipo = ''Saque'', valor = 10, data = em 3 10\<rparr>,
                 \<lparr>tipo = ''Saque'', valor = 20, data = em 4 11\<rparr>,
                 \<lparr>tipo = ''Deposito'', valor = 5, data = em 4 12\<rparr>]"
    unfolding h_def by (simp add: avaliar)
  note g1 = gerar_relatorio_filters_in_order [of h "''SAQUE''" "em 4 18"]
  note g2 = gerar_relatorio_filters_in_order [of h "''deposito''" "em 4 18"]
  note g3 = gerar_relatorio_filters_in_order [of h "[]" "em 4 18"]
  have "map valor (gerar_relatorio h None) = [100, 10, 20, 5]
     \<and> map valor (gerar_relatorio h (Some ''SAQUE'')) = [10, 20]
     \<and> map valor (gerar_relatorio h (Some ''deposito'')) = [100, 5]
     \<and> gerar_relatorio h (Some []) = []
     \<and> map valor (transacoes_do_dia h (em 4 18)) = [20, 5]"
    unfolding conjunct1 [OF g1] conjunct1 [OF conjunct2 [OF g1]]
      conjunct1 [OF conjunct2 [OF g2]] conjunct1 [OF conjunct2 [OF g3]]
      conjunct2 [OF conjunct2 [OF g1]]
    unfolding hv
    by (simp add: igual_sem_caixa_def mesma_letra_def maiuscula_def em_def date_def)
  then show ?thesis unfolding Let_def h_def [symmetric] .
qed

text \<open>
  C9. The withdrawal-count cap of a checking account counts only the withdrawal entries
  recorded in the ledger, and failed withdrawals are never recorded; therefore, for every
  account, rejected withdrawal requests do not consume the cap: the cap check blocks a
  request only after 3 successful withdrawals, no matter how many requests have failed.

  For a new checking account with any limit and any cap \<open>ls\<close> (3 by default), after any
  run: the count the cap check reads is the number of withdrawals of the run that were
  recorded, each of them a success; a request is refused for the cap exactly when its
  amount passes the limit check and that number has reached \<open>ls\<close>; and a refused request
  leaves the count where it was.
\<close>

theorem refused_requests_do_not_consume_cap:
  assumes "executar (ContaCorrente_init n (lmt :: real) ls) ps = (evs, c)"
  shows "numero_saques (historico c) = saques_registrados evs
       \<and> (fst (snd (sacar c v)) = LimiteSaquesExcedido
            \<longleftrightarrow> v \<le> lmt \<and> ls \<le> int (saques_registrados evs))
       \<and> (\<not> fst (sacar c v)
            \<longrightarrow> numero_saques (historico (snd (registrar (Saque v) c agora)))
                  = saques_registrados evs)"
proof -
  note cc = executar_ContaCorrente [OF assms]
  have blocked: "fst (snd (sacar c v)) = LimiteSaquesExcedido
            \<longleftrightarrow> v \<le> lmt \<and> ls \<le> int (saques_registrados evs)"
    using cc by (auto simp: sacar_def ContaCorrente_sacar_def Conta_sacar_def)
  have refused: "\<not> fst (sacar c v)
            \<Longrightarrow> numero_saques (historico (snd (registrar (Saque v) c agora)))
                  = saques_registrados evs"
    using sacar_cases [of c v] cc(2) by auto
  show ?thesis using cc(2) blocked refused by blast
qed

text \<open>
  Cap 3. After a deposit of 300, four refused withdrawal requests (over the limit, over the
  balance, not positive, over the balance) and two withdrawals of 100, two withdrawals are
  recorded and a 7th withdrawal request, of 50, is accepted. After it three are recorded, and
  the next request is refused for the cap.
\<close>

theorem refused_requests_do_not_consume_cap_witness:
  "\<exists>evs c evs' c'.
     executar (ContaCorrente_init 1 (500::real) 3)
       [(PorRegistrar (em 3 9), Deposito 300),
        (PorRegistrar (em 3 10), Saque 600),
        (PorRegistrar (em 3 11), Saque 400),
        (PorRegistrar (em 3 12), Saque (- 1)),
        (PorRegistrar (em 3 13), Saque 400),
        (PorRegistrar (em 3 14), Saque 100),
        (PorRegistrar (em 3 15), Saque 100)] = (evs, c)
     \<and> map snd evs = [DepositoRealizado, LimiteSaqueExcedido, SaldoInsuficiente,
          ValorInvalido, SaldoInsuficiente, SaqueRealizado, SaqueRealizado]
     \<and> numero_saques (historico c) = 2 \<and> saques_registrados evs = 2
     \<and> sacar c 50 = (True, SaqueRealizado, c\<lparr>saldo := 50\<rparr>)
     \<and> executar c [(PorRegistrar (em 3 16), Saque 50)] = (evs', c')
     \<and> numero_saques (historico c') = 3
     \<and> sacar c' 10 = (False, LimiteSaquesExcedido, c')"
proof -
  obtain evs c where run: "executar (ContaCorrente_init 1 (500::real) 3)
       [(PorRegistrar (em 3 9), Deposito 300),
        (PorRegistrar (em 3 10), Saque 600),
        (PorRegistrar (em 3 11), Saque 400),
        (PorRegistrar (em 3 12), Saque (- 1)),
        (PorRegistrar (em 3 13), Saque 400),
        (PorRegistrar (em 3 14), Saque 100),
        (PorRegistrar (em 3 15), Saque 100)] = (evs, c)"
    by (cases "executar (ContaCorrente_init 1 (500::real) 3)
       [(PorRegistrar (em 3 9), Deposito 300),
        (PorRegistrar (em 3 10), Saque 600),
        (PorRegistrar (em 3 11), Saque 400),
        (PorRegistrar (em 3 12), Saque (- 1)),
        (PorRegistrar (em 3 13), Saque 400),
        (PorRegistrar (em 3 14), Saque 100),
        (PorRegistrar (em 3 15), Saque 100)]")
  obtain evs' c' where run': "executar c [(PorRegistrar (em 3 16), Saque 50)] = (evs', c')"
    by (cases "executar c [(PorRegistrar (em 3 16), Saque 50)]")
  from run have vals: "map snd evs = [DepositoRealizado, LimiteSaqueExcedido,
          SaldoInsuficiente, ValorInvalido, SaldoInsuficiente, SaqueRealizado, SaqueRealizado]
     \<and> saques_registrados evs = 2
     \<and> sacar c 50 = (True, SaqueRealizado, c\<lparr>saldo := 50\<rparr>)"
    by (auto simp: avaliar)
  from run run' have vals': "numero_saques (historico c') = 3
     \<and> sacar c' 10 = (False, LimiteSaquesExcedido, c')"
    by (auto simp: avaliar)
  have n: "numero_saques (historico c) = 2"
    using refused_requests_do_not_consume_cap [OF run, of 50 "em 3 16"] vals by simp
  show ?thesis
    by (rule exI [of _ evs], rule exI [of _ c], rule exI [of _ evs'], rule exI [of _ c'])
      (use run run' vals vals' n in simp)
qed

text \<open>
  C10. Deposits are never subject to the per-operation limit or to the withdrawal-count
  cap of a checking account: for every account state (any balance, any ledger contents)
  and every amount \<open>v > 0\<close>, \<^verbatim>\<open>depositar(v)\<close> returns success and increases the balance by
  exactly \<open>v\<close>, and \<^verbatim>\<open>Deposito.registrar\<close> then appends one deposit entry.

  As stated the claim fails on the numbers of the program: the addition rounds. With a
  balance of \<^verbatim>\<open>1e16\<close>, \<^verbatim>\<open>depositar(1.0)\<close> returns success and the account is the one before
  the call, with its balance still \<^verbatim>\<open>1e16\<close>; so is the balance when the deposit of \<^verbatim>\<open>1.0\<close>
  is made through the customer.
\<close>

theorem float_deposit_leaves_balance_unchanged:
  "saldo (conta_float_apos
      [(PorCliente (em 3 9) (em 3 9), Deposito (Finito 10000000000000000))])
     = Finito 10000000000000000
   \<and> depositar (conta_float_apos
      [(PorCliente (em 3 9) (em 3 9), Deposito (Finito 10000000000000000))]) (Finito 1)
     = (True, DepositoRealizado, conta_float_apos
      [(PorCliente (em 3 9) (em 3 9), Deposito (Finito 10000000000000000))])
   \<and> saldo (conta_float_apos
      [(PorCliente (em 3 9) (em 3 9), Deposito (Finito 10000000000000000)),
       (PorCliente (em 3 10) (em 3 10), Deposito (Finito 1))])
     = Finito 10000000000000000"
  by (simp add: avaliar avaliar_float)

text \<open>
  C10, amended. Deposits are never subject to the per-operation limit or to the
  withdrawal-count cap of a checking account: for every account state (any balance, any
  ledger contents) and every amount \<open>v > 0\<close>, \<^verbatim>\<open>depositar(v)\<close> returns success and sets the
  balance to the float sum of the balance and \<open>v\<close> (for finite operands, their exact sum
  rounded to the nearest float), and \<^verbatim>\<open>Deposito.registrar\<close> then appends one deposit entry.

  \<open>0 < v\<close> is the comparison of floats, so \<open>v\<close> is a positive number or the positive
  infinity, and not NaN.
\<close>

theorem deposit_accepted_with_rounded_sum:
  assumes "(0::pyfloat) < v"
  shows "depositar c v = (True, DepositoRealizado, c\<lparr>saldo := saldo c + v\<rparr>)
       \<and> registrar (Deposito v) c agora =
           (DepositoRealizado,
            c\<lparr>saldo := saldo c + v,
              historico := historico c @ [\<lparr>tipo = ''Deposito'', valor = v, data = agora\<rparr>]\<rparr>)
       \<and> (\<forall>s x. saldo c = Finito s \<and> v = Finito x \<longrightarrow> saldo c + v = arredondar (s + x))"
  using positivo_nao_le_zero [OF assms] by (simp add: depositar_def adicionar_transacao_def)

text \<open>
  An account with limit 500 whose three withdrawals are used up takes a deposit of 1000.
\<close>

theorem deposit_accepted_with_rounded_sum_witness:
  "(let d = conta_float_apos [(PorRegistrar (em 3 9), Deposito (Finito 100)),
                        (PorRegistrar (em 3 10), Saque (Finito 10)),
                        (PorRegistrar (em 3 11), Saque (Finito 10)),
                        (PorRegistrar (em 3 12), Saque (Finito 10))]
    in classe d = Corrente (Finito 500) 3 \<and> numero_saques (historico d) = 3
     \<and> saldo d = Finito 70
     \<and> sacar d (Finito 10) = (False, LimiteSaquesExcedido, d)
     \<and> depositar d (Finito 1000) = (True, DepositoRealizado, d\<lparr>saldo := Finito 1070\<rparr>)
     \<and> saldo (snd (registrar (Deposito (Finito 1000)) d (em 3 13))) = Finito 1070
     \<and> map tipo (historico (snd (registrar (Deposito (Finito 1000)) d (em 3 13))))
          = [''Deposito'', ''Saque'', ''Saque'', ''Saque'', ''Deposito''])"
proof -
  define d where "d = conta_float_apos [(PorRegistrar (em 3 9), Deposito (Finito 100)),
                        (PorRegistrar (em 3 10), Saque (Finito 10)),
                        (PorRegistrar (em 3 11), Saque (Finito 10)),
                        (PorRegistrar (em 3 12), Saque (Finito 10))]"
  have cl: "classe d = Corrente (Finito 500) 3"
    unfolding d_def by (simp add: avaliar avaliar_float)
  have n: "numero_saques (historico d) = 3" unfolding d_def by (simp add: avaliar avaliar_float)
  have b: "saldo d = Finito 70" unfolding d_def by (simp add: avaliar avaliar_float)
  have h: "map tipo (historico d) = [''Deposito'', ''Saque'', ''Saque'', ''Saque'']"
    unfolding d_def by (simp add: avaliar avaliar_float)
  have s: "sacar d (Finito 10) = (False, LimiteSaquesExcedido, d)"
    using cl n by (simp add: sacar_def ContaCorrente_sacar_def)
  have pos: "(0::pyfloat) < Finito 1000" by (simp add: zero_pyfloat_def)
  have sum: "Finito 70 + Finito 1000 = Finito 1070" by (simp add: avaliar_float)
  have dep: "depositar d (Finito 1000) = (True, DepositoRealizado, d\<lparr>saldo := Finito 1070\<rparr>)
     \<and> registrar (Deposito (Finito 1000)) d (em 3 13) =
           (DepositoRealizado,
            d\<lparr>saldo := Finito 1070,
              historico := historico d @
                [\<lparr>tipo = ''Deposito'', valor = Finito 1000, data = em 3 13\<rparr>]\<rparr>)"
    using deposit_accepted_with_rounded_sum [OF pos, of d "em 3 13"] b sum
    by (simp del: registrar.simps plus_pyfloat.simps)
  show ?thesis
    unfolding Let_def d_def [symmetric] using cl n b h s dep
    by (simp del: registrar.simps)
qed

end
